theory Spec2Isabelle
  imports Main "HOL-Library.AList"
begin

section \<open>Python values used by the playlist cog\<close>

text \<open>
  The cog keeps one dictionary \<open>self.playlists\<close>: guild key \<rightarrow> (playlist name \<rightarrow> list of
  track URLs). Python dictionaries iterate in insertion order, so a dictionary is an
  association list with pairwise distinct keys: assigning to a present key keeps its
  position, assigning to a new key appends it, \<open>del\<close> and \<open>pop\<close> drop the entry.

  The outer dictionary is indexed in the source both by \<open>interaction.guild_id\<close> (an
  \<open>int\<close>; the annotation of \<open>self.playlists\<close> is \<open>dict[int, ...]\<close>) and by
  \<open>str(interaction.guild_id)\<close>. In Python an \<open>int\<close> key and a \<open>str\<close> key are never
  equal, so the key type keeps the two apart.
\<close>

datatype pykey = KInt int | KStr string

datatype py_error = KeyError | IndexError | AppCommandError string

type_synonym ('k, 'v) dict = "('k \<times> 'v) list"

type_synonym guild_playlists = "(string, string list) dict"

type_synonym store = "(pykey, guild_playlists) dict"

definition dict_contains :: "('k, 'v) dict \<Rightarrow> 'k \<Rightarrow> bool" where
  \<comment> \<open>\<open>k in d\<close>\<close>
  "dict_contains d k = (map_of d k \<noteq> None)"

definition dict_get :: "('k, 'v) dict \<Rightarrow> 'k \<Rightarrow> 'v option" where
  \<comment> \<open>\<open>d.get(k)\<close>; \<open>d[k]\<close> raises \<open>KeyError\<close> where this is \<open>None\<close>\<close>
  "dict_get d k = map_of d k"

definition dict_setitem :: "('k, 'v) dict \<Rightarrow> 'k \<Rightarrow> 'v \<Rightarrow> ('k, 'v) dict" where
  \<comment> \<open>\<open>d[k] = v\<close>\<close>
  "dict_setitem d k v = AList.update k v d"

definition dict_delitem :: "('k, 'v) dict \<Rightarrow> 'k \<Rightarrow> py_error + ('k, 'v) dict" where
  \<comment> \<open>\<open>del d[k]\<close>\<close>
  "dict_delitem d k = (if dict_contains d k then Inr (AList.delete k d) else Inl KeyError)"

definition dict_pop :: "('k, 'v) dict \<Rightarrow> 'k \<Rightarrow> py_error + ('v \<times> ('k, 'v) dict)" where
  \<comment> \<open>\<open>d.pop(k)\<close>: the value and the dictionary without the key\<close>
  "dict_pop d k = (case dict_get d k of None \<Rightarrow> Inl KeyError | Some v \<Rightarrow> Inr (v, AList.delete k d))"

definition list_index :: "'a list \<Rightarrow> int \<Rightarrow> nat option" where
  \<comment> \<open>the position a Python list subscript denotes: negative subscripts count from the end\<close>
  "list_index xs i =
     (let n = int (length xs); j = (if i < 0 then i + n else i)
      in if 0 \<le> j \<and> j < n then Some (nat j) else None)"

definition list_getitem :: "'a list \<Rightarrow> int \<Rightarrow> py_error + 'a" where
  \<comment> \<open>\<open>xs[i]\<close>\<close>
  "list_getitem xs i = (case list_index xs i of None \<Rightarrow> Inl IndexError | Some j \<Rightarrow> Inr (xs ! j))"

definition list_delitem :: "'a list \<Rightarrow> int \<Rightarrow> py_error + 'a list" where
  \<comment> \<open>\<open>del xs[i]\<close>\<close>
  "list_delitem xs i =
     (case list_index xs i of None \<Rightarrow> Inl IndexError | Some j \<Rightarrow> Inr (take j xs @ drop (Suc j) xs))"

text \<open>\<open>str\<close> of an \<open>int\<close>: the decimal numeral, with a minus sign for a negative number.\<close>

fun str_nat :: "nat \<Rightarrow> string" where
  "str_nat n = (if n < 10 then [''0123456789'' ! n] else str_nat (n div 10) @ [''0123456789'' ! (n mod 10)])"

declare str_nat.simps [simp del]

definition str_int :: "int \<Rightarrow> string" where
  "str_int i = (if i < 0 then CHR ''-'' # str_nat (nat (- i)) else str_nat (nat i))"

definition join :: "string \<Rightarrow> string list \<Rightarrow> string" where
  \<comment> \<open>\<open>sep.join(xs)\<close>\<close>
  "join sep xs = concat (case xs of [] \<Rightarrow> [] | y # ys \<Rightarrow> y # map (\<lambda>z. sep @ z) ys)"

section \<open>The data model of \<open>utils/sources\<close>\<close>

text \<open>
  \<open>Track\<close> and \<open>Playlist\<close> are dataclasses. The field \<open>audio_url\<close> holds an
  \<open>FFmpegPCMAudio\<close> object of the audio library; its type is a parameter here.
  Python's \<open>sum\<close> adds the elements from the left onto the start value 0.
\<close>

record 'h Track =
  title :: string
  duration :: int
  webpage_url :: string
  audio_url :: 'h
  thumbnail :: "string option"

record 'h Playlist =
  playlist_title :: string
  playlist_webpage_url :: string
  tracks :: "'h Track list"

definition py_sum :: "int list \<Rightarrow> int" where
  "py_sum xs = foldl (\<lambda>acc x. acc + x) 0 xs"

definition playlist_duration :: "'h Playlist \<Rightarrow> int" where
  \<comment> \<open>the property \<open>Playlist.duration\<close>\<close>
  "playlist_duration p = py_sum (map (\<lambda>song. duration song) (tracks p))"

definition Track_str :: "'h Track \<Rightarrow> string" where
  \<comment> \<open>\<open>Track.__str__\<close>\<close>
  "Track_str t =
     ''Title: ['' @ title t @ ''](<'' @ webpage_url t @ ''>)'' @ [CHR 0x0A] @
     ''Duration: '' @ str_int (duration t) @ ''s''"

section \<open>The playlist cog\<close>

text \<open>
  The state of the cog is the dictionary \<open>self.playlists\<close> together with the content of
  the file \<open>playlists.json\<close> (\<open>None\<close>: no such file). The file holds a JSON document
  of the shape object of objects of arrays of strings; it is modelled as that document
  (the member lists of the objects, in the order of the text), not as bytes: writing and
  parsing JSON text is the work of Python's \<open>json\<close> module. \<open>json.dump\<close> writes a
  dictionary's items in iteration order and turns an \<open>int\<close> key into its decimal
  string; \<open>json.load\<close> builds each dictionary by inserting the members in order, so of
  a repeated member name the last value is kept.
\<close>

type_synonym document = "(string \<times> (string \<times> string list) list) list"

record bot =
  playlists :: store
  playlists_file :: "document option"

datatype response =
  Message string
  | Embed (embed_title: string) (embed_description: string) (embed_thumbnail: "string option")

type_synonym result = "bot \<times> (py_error + response)"

definition json_key :: "pykey \<Rightarrow> string" where
  "json_key k = (case k of KStr s \<Rightarrow> s | KInt i \<Rightarrow> str_int i)"

definition json_dump :: "store \<Rightarrow> document" where
  "json_dump d = map (\<lambda>(k, v). (json_key k, v)) d"

definition dict_of_members :: "('k \<times> 'v) list \<Rightarrow> ('k, 'v) dict" where
  "dict_of_members ms = foldl (\<lambda>d (k, v). dict_setitem d k v) [] ms"

definition json_load :: "document \<Rightarrow> store" where
  "json_load doc = dict_of_members (map (\<lambda>(k, v). (KStr k, dict_of_members v)) doc)"

definition load_playlists :: "document option \<Rightarrow> store" where
  \<comment> \<open>\<open>PlaylistGroup.__load_playlists\<close>\<close>
  "load_playlists f = (case f of Some doc \<Rightarrow> json_load doc | None \<Rightarrow> [])"

definition save_playlists :: "bot \<Rightarrow> bot" where
  \<comment> \<open>\<open>PlaylistGroup.__save_playlists\<close>\<close>
  "save_playlists st = st\<lparr>playlists_file := Some (json_dump (playlists st))\<rparr>"

definition init :: "document option \<Rightarrow> bot" where
  \<comment> \<open>\<open>PlaylistGroup.__init__\<close>\<close>
  "init f = \<lparr>playlists = load_playlists f, playlists_file = f\<rparr>"

definition transform :: "store \<Rightarrow> int \<Rightarrow> string \<Rightarrow> py_error + string" where
  \<comment> \<open>\<open>PlaylistTransformer.transform\<close>\<close>
  "transform pls gid v =
     (let guild_id = KStr (str_int gid) in
      case dict_get pls guild_id of
        Some g \<Rightarrow> if dict_contains g v then Inr v
                  else Inl (AppCommandError (''Playlist '' @ [CHR 0x27] @ v @ [CHR 0x27] @ '' does not exist.''))
      | None \<Rightarrow> Inl (AppCommandError (''Playlist '' @ [CHR 0x27] @ v @ [CHR 0x27] @ '' does not exist.'')))"

definition playlist_entries :: "guild_playlists \<Rightarrow> (string \<times> nat) list" where
  \<comment> \<open>for each playlist of the guild, in iteration order, its name and \<open>len\<close> of its track list\<close>
  "playlist_entries g = map (\<lambda>(playlist, ts). (playlist, length ts)) g"

definition render_entries :: "(string \<times> nat) list \<Rightarrow> string" where
  \<comment> \<open>the lines \<open>"{i}. {playlist} - {len} tracks"\<close>, numbered from 1 and joined by newlines\<close>
  "render_entries es =
     join [CHR 0x0A]
       (map (\<lambda>(i, (playlist, n)). str_int (int i) @ ''. '' @ playlist @ '' - '' @ str_int (int n) @ '' tracks'')
            (zip [1 ..< Suc (length es)] es))"

definition list_playlist :: "bot \<Rightarrow> int \<Rightarrow> result" where
  "list_playlist st gid =
     (let guild_id = KStr (str_int gid) in
      if playlists st = [] then
        (st, Inr (Message ''No saved playlists found. Create your own by with `playlist create <name>`''))
      else case dict_get (playlists st) guild_id of
        None \<Rightarrow> (st, Inl KeyError)
      | Some g \<Rightarrow> (st, Inr (Embed ''Saved playlists'' (render_entries (playlist_entries g)) None)))"

definition falsy :: "guild_playlists option \<Rightarrow> bool" where
  \<comment> \<open>\<open>not x\<close> for the result of \<open>self.playlists.get(...)\<close>: \<open>None\<close> and the empty dictionary\<close>
  "falsy x = (case x of None \<Rightarrow> True | Some g \<Rightarrow> g = [])"

definition create_playlist :: "bot \<Rightarrow> int \<Rightarrow> string \<Rightarrow> result" where
  "create_playlist st gid name =
     (let guild_id = KStr (str_int gid) in
      if dict_contains (playlists st) (KStr name) then
        (st, Inr (Message ''Playlist already exists.''))
      else
        let pls = (if falsy (dict_get (playlists st) (KInt gid))
                   then dict_setitem (playlists st) guild_id []
                   else playlists st)
        in case dict_get pls guild_id of
             None \<Rightarrow> (st, Inl KeyError)
           | Some g \<Rightarrow>
               (save_playlists (st\<lparr>playlists := dict_setitem pls guild_id (dict_setitem g name [])\<rparr>),
                Inr (Message (''Created playlist '' @ name @ ''.''))))"

definition delete_playlist :: "bot \<Rightarrow> int \<Rightarrow> string \<Rightarrow> result" where
  "delete_playlist st gid name =
     (let guild_id = KStr (str_int gid) in
      if \<not> dict_contains (playlists st) (KStr name) then
        (st, Inr (Message ''Playlist does not exist.''))
      else case dict_get (playlists st) guild_id of
        None \<Rightarrow> (st, Inl KeyError)
      | Some g \<Rightarrow>
          (case dict_delitem g name of
             Inl e \<Rightarrow> (st, Inl e)
           | Inr g' \<Rightarrow>
               (save_playlists (st\<lparr>playlists := dict_setitem (playlists st) guild_id g'\<rparr>),
                Inr (Message (''Deleted playlist '' @ name @ ''.'')))))"

definition rename_playlist :: "bot \<Rightarrow> int \<Rightarrow> string \<Rightarrow> string \<Rightarrow> result" where
  "rename_playlist st gid name new_name =
     (if \<not> dict_contains (playlists st) (KStr name) then
        (st, Inr (Message ''Playlist does not exist.''))
      else case dict_get (playlists st) (KInt gid) of
        None \<Rightarrow> (st, Inl KeyError)
      | Some g \<Rightarrow>
          if dict_contains g new_name then
            (st, Inr (Message (''A playlist with the name '' @ new_name @ '' already exists.'')))
          else
            (case dict_pop g name of
               Inl e \<Rightarrow> (st, Inl e)
             | Inr (ts, g') \<Rightarrow>
                 (save_playlists
                    (st\<lparr>playlists := dict_setitem (playlists st) (KInt gid) (dict_setitem g' new_name ts)\<rparr>),
                  Inr (Message (''Renamed playlist '' @ name @ '' to '' @ new_name @ ''.'')))))"

text \<open>
  \<open>YTSource.fetch_track_by_url\<close> is the track resolver, a collaborator outside this
  code: it is the parameter \<open>fetch\<close>, \<open>None\<close> being its answer for a URL it rejects.
\<close>

definition add_to_playlist ::
    "(string \<Rightarrow> 'h Track option) \<Rightarrow> bot \<Rightarrow> int \<Rightarrow> string \<Rightarrow> string \<Rightarrow> result" where
  "add_to_playlist fetch st gid name track_url =
     (case dict_get (playlists st) (KInt gid) of
        None \<Rightarrow> (st, Inl KeyError)
      | Some g \<Rightarrow>
          (case dict_get g name of
             None \<Rightarrow> (st, Inr (Message ''Playlist does not exist.''))
           | Some ts \<Rightarrow>
               (case fetch track_url of
                  None \<Rightarrow> (st, Inr (Message ''Track not found.''))
                | Some track \<Rightarrow>
                    (save_playlists
                       (st\<lparr>playlists :=
                            dict_setitem (playlists st) (KInt gid) (dict_setitem g name (ts @ [track_url]))\<rparr>),
                     Inr (Embed (''Added to the playlist '' @ name) (Track_str track)
                            (case thumbnail track of
                               None \<Rightarrow> None
                             | Some t \<Rightarrow> if t = [] then None else Some t))))))"

definition remove_from_playlist :: "bot \<Rightarrow> int \<Rightarrow> string \<Rightarrow> int \<Rightarrow> result" where
  "remove_from_playlist st gid name track_id =
     (let guild_id = KStr (str_int gid) in
      case dict_get (playlists st) guild_id of
        None \<Rightarrow> (st, Inl KeyError)
      | Some g \<Rightarrow>
          (case dict_get g name of
             None \<Rightarrow> (st, Inr (Message ''Playlist does not exist.''))
           | Some ts \<Rightarrow>
               if 0 > track_id - 1 \<and> track_id - 1 > int (length ts) then
                 (st, Inr (Message ''Track not found in playlist.''))
               else
                 (case list_delitem ts (track_id - 1) of
                    Inl e \<Rightarrow> (st, Inl e)
                  | Inr ts' \<Rightarrow>
                      (let g1 = dict_setitem g name ts';
                           g2 = (if ts' = [] then AList.delete name g1 else g1);
                           st' = save_playlists (st\<lparr>playlists := dict_setitem (playlists st) guild_id g2\<rparr>)
                       in (case dict_get g2 name of
                             None \<Rightarrow> (st', Inl KeyError)
                           | Some ts2 \<Rightarrow>
                               (case list_getitem ts2 (track_id - 1) of
                                  Inl e \<Rightarrow> (st', Inl e)
                                | Inr u \<Rightarrow>
                                    (st', Inr (Message (''Removed '' @ u @ '' from the playlist '' @ name @ ''.'')))))))))"

section \<open>Reachable states and the invariant of the dictionary\<close>

text \<open>
  The cog is built once (\<open>__init__\<close> loads the file) and then serves commands; a command
  that raises leaves the dictionary as it was at the moment of the exception, and the cog
  goes on serving. \<open>list_playlist\<close> changes nothing and is left out. The resolver of
  \<open>add_to_playlist\<close> is arbitrary in every step.
\<close>

inductive reachable :: "bot \<Rightarrow> bool" where
  reachable_init: "reachable (init f)"
| reachable_create: "reachable st \<Longrightarrow> reachable (fst (create_playlist st gid name))"
| reachable_delete: "reachable st \<Longrightarrow> reachable (fst (delete_playlist st gid name))"
| reachable_rename: "reachable st \<Longrightarrow> reachable (fst (rename_playlist st gid name new_name))"
| reachable_add:
    "reachable st \<Longrightarrow>
     reachable (fst (add_to_playlist (fetch :: string \<Rightarrow> unit Track option) st gid name track_url))"
| reachable_remove: "reachable st \<Longrightarrow> reachable (fst (remove_from_playlist st gid name track_id))"

definition is_str_key :: "pykey \<Rightarrow> bool" where
  "is_str_key k = (case k of KStr s \<Rightarrow> True | KInt i \<Rightarrow> False)"

definition wf_store :: "store \<Rightarrow> bool" where
  \<comment> \<open>keys are pairwise distinct, as in every dictionary, and every guild key is a \<open>str\<close>\<close>
  "wf_store d =
     (distinct (map fst d) \<and> list_all (\<lambda>(k, g). is_str_key k \<and> distinct (map fst g)) d)"

section \<open>Facts about dictionaries and lists\<close>

lemma dict_get_setitem:
  "dict_get (dict_setitem d k v) k' = (if k' = k then Some v else dict_get d k')"
  by (simp add: dict_get_def dict_setitem_def AList.update_conv')

lemma dict_contains_delete:
  "dict_contains (AList.delete k d) k' = (k' \<noteq> k \<and> dict_contains d k')"
  by (simp add: dict_contains_def AList.delete_conv')

lemma list_delitem_single: "list_delitem [u] 0 = Inr []"
  by (simp add: list_delitem_def list_index_def)

lemma playlist_entries_keys: "map fst (playlist_entries g) = map fst g"
  by (induction g) (auto simp: playlist_entries_def)

lemma foldl_add_start: "foldl (\<lambda>acc x. acc + x) a xs = (a::int) + sum_list xs"
  by (induction xs arbitrary: a) simp_all

lemma py_sum_sum_list: "py_sum xs = sum_list xs"
  by (simp add: py_sum_def foldl_add_start)

lemma update_new_key: "k \<notin> fst ` set al \<Longrightarrow> AList.update k v al = al @ [(k, v)]"
  by (induction al) auto

lemma foldl_setitem_distinct:
  "distinct (map fst (acc @ ms)) \<Longrightarrow> foldl (\<lambda>d (k, v). dict_setitem d k v) acc ms = acc @ ms"
proof (induction ms arbitrary: acc)
  case Nil
  then show ?case by simp
next
  case (Cons m ms)
  obtain k v where m: "m = (k, v)" by (cases m)
  from Cons.prems have "k \<notin> fst ` set acc" by (auto simp: m)
  then have u: "dict_setitem acc k v = acc @ [(k, v)]"
    by (simp add: dict_setitem_def update_new_key)
  from Cons.prems have "distinct (map fst ((acc @ [(k, v)]) @ ms))" by (simp add: m)
  from Cons.IH [OF this] show ?case by (simp add: m u)
qed

lemma dict_of_members_distinct: "distinct (map fst ms) \<Longrightarrow> dict_of_members ms = ms"
  using foldl_setitem_distinct [of "[]" ms] by (simp add: dict_of_members_def)

lemma foldl_setitem_keys_distinct:
  "distinct (map fst acc) \<Longrightarrow> distinct (map fst (foldl (\<lambda>d (k, v). dict_setitem d k v) acc ms))"
  by (induction ms arbitrary: acc) (auto simp: dict_setitem_def AList.distinct_update)

lemma dict_of_members_keys_distinct: "distinct (map fst (dict_of_members ms))"
  by (simp add: dict_of_members_def foldl_setitem_keys_distinct)

lemma set_update_subset: "set (AList.update k v al) \<subseteq> insert (k, v) (set al)"
  by (induction al) auto

lemma list_all_setitem:
  "list_all P d \<Longrightarrow> P (k, v) \<Longrightarrow> list_all P (dict_setitem d k v)"
  using set_update_subset [of k v d] by (auto simp: list_all_iff dict_setitem_def)

lemma list_all_delete: "list_all P d \<Longrightarrow> list_all P (AList.delete k d)"
  by (auto simp: list_all_iff AList.delete_eq)

lemma foldl_setitem_all:
  "list_all P acc \<Longrightarrow> list_all P ms \<Longrightarrow> list_all P (foldl (\<lambda>d (k, v). dict_setitem d k v) acc ms)"
  by (induction ms arbitrary: acc) (auto simp: list_all_setitem)

lemma dict_of_members_all: "list_all P ms \<Longrightarrow> list_all P (dict_of_members ms)"
  by (simp add: dict_of_members_def foldl_setitem_all)

lemma wf_store_json_load: "wf_store (json_load doc)"
proof -
  have "list_all (\<lambda>(k, g). is_str_key k \<and> distinct (map fst g))
          (map (\<lambda>(k, v). (KStr k, dict_of_members v)) doc)"
    by (auto simp: list_all_iff is_str_key_def dict_of_members_keys_distinct)
  then show ?thesis
    by (simp add: wf_store_def json_load_def dict_of_members_keys_distinct dict_of_members_all)
qed

lemma wf_store_load: "wf_store (load_playlists f)"
  by (cases f) (simp_all add: load_playlists_def wf_store_json_load, simp add: wf_store_def)

lemma wf_store_setitem:
  "wf_store d \<Longrightarrow> is_str_key k \<Longrightarrow> distinct (map fst g) \<Longrightarrow> wf_store (dict_setitem d k g)"
  unfolding wf_store_def
  by (auto simp: list_all_setitem) (simp add: dict_setitem_def AList.distinct_update)

lemma wf_store_get:
  "wf_store d \<Longrightarrow> dict_get d k = Some g \<Longrightarrow> is_str_key k \<and> distinct (map fst g)"
  unfolding wf_store_def dict_get_def
  by (auto simp: list_all_iff dest!: map_of_SomeD)

lemma wf_store_int_key: "wf_store d \<Longrightarrow> dict_get d (KInt i) = None"
proof (cases "dict_get d (KInt i)")
  case None
  then show ?thesis by simp
next
  case (Some g)
  assume "wf_store d"
  from wf_store_get [OF this Some] show ?thesis by (simp add: is_str_key_def)
qed

lemma json_roundtrip: "wf_store d \<Longrightarrow> json_load (json_dump d) = d"
proof -
  assume wf: "wf_store d"
  have "map (\<lambda>(k, v). (KStr k, dict_of_members v)) (json_dump d) = d"
    unfolding json_dump_def map_map
  proof (rule map_idI)
    fix x assume x: "x \<in> set d"
    obtain k g where kg: "x = (k, g)" by (cases x)
    from wf x have "is_str_key k" "distinct (map fst g)"
      by (auto simp: wf_store_def list_all_iff kg)
    then show "((\<lambda>(k, v). (KStr k, dict_of_members v)) \<circ> (\<lambda>(k, v). (json_key k, v))) x = x"
      by (cases k) (simp_all add: kg is_str_key_def json_key_def dict_of_members_distinct)
  qed
  then show ?thesis
    using wf by (simp add: json_load_def dict_of_members_distinct wf_store_def)
qed

section \<open>The invariant holds in every reachable state\<close>

lemma playlists_save [simp]: "playlists (save_playlists st) = playlists st"
  by (simp add: save_playlists_def)

lemma distinct_setitem: "distinct (map fst g) \<Longrightarrow> distinct (map fst (dict_setitem g k v))"
  by (simp add: dict_setitem_def AList.distinct_update)

lemma wf_create: "wf_store (playlists st) \<Longrightarrow> wf_store (playlists (fst (create_playlist st gid name)))"
proof -
  assume wf: "wf_store (playlists st)"
  let ?k = "KStr (str_int gid)"
  have k: "is_str_key ?k" by (simp add: is_str_key_def)
  have w1: "wf_store (dict_setitem (playlists st) ?k [])"
    using wf k by (simp add: wf_store_setitem)
  have step: "\<And>pls g. wf_store pls \<Longrightarrow> dict_get pls ?k = Some g \<Longrightarrow>
      wf_store (dict_setitem pls ?k (dict_setitem g name []))"
    using k by (blast intro: wf_store_setitem distinct_setitem dest: wf_store_get)
  show ?thesis
    using wf w1 step
    by (auto simp: create_playlist_def Let_def split: option.splits)
qed

lemma wf_delete: "wf_store (playlists st) \<Longrightarrow> wf_store (playlists (fst (delete_playlist st gid name)))"
proof -
  assume wf: "wf_store (playlists st)"
  let ?k = "KStr (str_int gid)"
  have k: "is_str_key ?k" by (simp add: is_str_key_def)
  have step: "\<And>g. dict_get (playlists st) ?k = Some g \<Longrightarrow>
      wf_store (dict_setitem (playlists st) ?k (AList.delete name g))"
    using k wf by (blast intro: wf_store_setitem AList.distinct_delete dest: wf_store_get)
  show ?thesis
    using wf step
    by (auto simp: delete_playlist_def Let_def dict_delitem_def split: option.splits sum.splits if_splits)
qed

lemma rename_wf_unchanged:
  "wf_store (playlists st) \<Longrightarrow> fst (rename_playlist st gid name new_name) = st"
  by (simp add: rename_playlist_def wf_store_int_key)

lemma add_wf_KeyError:
  "wf_store (playlists st) \<Longrightarrow> add_to_playlist fetch st gid name track_url = (st, Inl KeyError)"
  by (simp add: add_to_playlist_def wf_store_int_key)

lemma wf_remove:
  "wf_store (playlists st) \<Longrightarrow> wf_store (playlists (fst (remove_from_playlist st gid name track_id)))"
proof -
  assume wf: "wf_store (playlists st)"
  let ?k = "KStr (str_int gid)"
  have k: "is_str_key ?k" by (simp add: is_str_key_def)
  have step: "\<And>g ts'. dict_get (playlists st) ?k = Some g \<Longrightarrow>
      wf_store (dict_setitem (playlists st) ?k (dict_setitem g name ts'))
      \<and> wf_store (dict_setitem (playlists st) ?k (AList.delete name (dict_setitem g name ts')))"
    using k wf by (blast intro: wf_store_setitem AList.distinct_delete distinct_setitem dest: wf_store_get)
  show ?thesis
    using wf step
    by (auto simp: remove_from_playlist_def Let_def split: option.splits sum.splits if_splits)
qed

lemma reachable_wf: "reachable st \<Longrightarrow> wf_store (playlists st)"
proof (induction rule: reachable.induct)
  case (reachable_init f)
  then show ?case by (simp add: init_def wf_store_load)
next
  case (reachable_create st gid name)
  then show ?case by (simp add: wf_create)
next
  case (reachable_delete st gid name)
  then show ?case by (simp add: wf_delete)
next
  case (reachable_rename st gid name new_name)
  then show ?case by (simp add: rename_wf_unchanged)
next
  case (reachable_add st fetch gid name track_url)
  then show ?case by (simp add: add_wf_KeyError)
next
  case (reachable_remove st gid name track_id)
  then show ?case by (simp add: wf_remove)
qed

section \<open>The duration of a playlist\<close>

text \<open>
  C10: the \<open>duration\<close> property of a \<open>Playlist\<close> is the sum of the \<open>duration\<close> fields of
  its tracks, and it is 0 when the track list is empty.
\<close>

theorem playlist_duration_sum:
  "playlist_duration p = (\<Sum>song\<leftarrow>tracks p. duration song)
   \<and> playlist_duration (p\<lparr>tracks := []\<rparr>) = 0"
  by (simp add: playlist_duration_def py_sum_sum_list)

section \<open>Removing the only track of a playlist\<close>

text \<open>
  C8: when playlist \<open>name\<close> of guild \<open>gid\<close> holds exactly one track, removing track 1
  deletes the playlist from the guild's mapping (the other playlists and guilds stay), the
  file is rewritten with that mapping, and a following \<open>list_playlist\<close> of the guild answers
  with the entries of the remaining playlists, among which \<open>name\<close> is not.
\<close>

theorem remove_last_track_deletes_playlist:
  assumes "dict_get (playlists st) (KStr (str_int gid)) = Some g"
    and "dict_get g name = Some [u]"
  shows "let st' = fst (remove_from_playlist st gid name 1);
             g' = AList.delete name g
         in playlists st' = dict_setitem (playlists st) (KStr (str_int gid)) g'
            \<and> dict_get (playlists st') (KStr (str_int gid)) = Some g'
            \<and> \<not> dict_contains g' name
            \<and> playlists_file st' = Some (json_dump (playlists st'))
            \<and> list_playlist st' gid =
                (st', Inr (Embed ''Saved playlists'' (render_entries (playlist_entries g')) None))
            \<and> name \<notin> fst ` set (playlist_entries g')"
proof -
  let ?k = "KStr (str_int gid)"
  let ?g' = "AList.delete name g"
  let ?st' = "save_playlists (st\<lparr>playlists := dict_setitem (playlists st) ?k ?g'\<rparr>)"
  have nc: "\<not> dict_contains ?g' name"
    by (simp add: dict_contains_delete)
  then have ng: "dict_get ?g' name = None"
    by (simp add: dict_contains_def dict_get_def)
  have run: "remove_from_playlist st gid name 1 = (?st', Inl KeyError)"
    using assms ng
    by (simp add: remove_from_playlist_def Let_def list_delitem_single dict_setitem_def
        AList.delete_update_same)
  have pl: "playlists ?st' = dict_setitem (playlists st) ?k ?g'"
    by (simp add: save_playlists_def)
  have ne: "playlists ?st' \<noteq> []"
    by (simp add: save_playlists_def dict_setitem_def)
  have lk: "dict_get (playlists ?st') ?k = Some ?g'"
    by (simp add: pl dict_get_setitem)
  have ls: "list_playlist ?st' gid =
      (?st', Inr (Embed ''Saved playlists'' (render_entries (playlist_entries ?g')) None))"
    using ne lk by (simp add: list_playlist_def Let_def)
  have fl: "playlists_file ?st' = Some (json_dump (playlists ?st'))"
    by (simp add: save_playlists_def)
  have "fst ` set (playlist_entries ?g') = fst ` set ?g'"
    using playlist_entries_keys [of ?g'] by (metis set_map)
  then have nm: "name \<notin> fst ` set (playlist_entries ?g')"
    by (simp add: AList.delete_notin_dom)
  show ?thesis
    unfolding Let_def run fst_conv using pl lk nc fl ls nm by blast
qed

theorem remove_last_track_deletes_playlist_witness:
  "dict_get (playlists \<lparr>playlists = [(KStr ''42'', [(''road-trip'', [''https://example/a''])])],
                        playlists_file = None\<rparr>)
       (KStr (str_int 42)) = Some [(''road-trip'', [''https://example/a''])]
   \<and> dict_get [(''road-trip'', [''https://example/a''])] ''road-trip'' = Some [''https://example/a'']
   \<and> playlists (fst (remove_from_playlist
         \<lparr>playlists = [(KStr ''42'', [(''road-trip'', [''https://example/a''])])], playlists_file = None\<rparr>
         42 ''road-trip'' 1)) = [(KStr ''42'', [])]
   \<and> snd (list_playlist (fst (remove_from_playlist
         \<lparr>playlists = [(KStr ''42'', [(''road-trip'', [''https://example/a''])])], playlists_file = None\<rparr>
         42 ''road-trip'' 1)) 42) = Inr (Embed ''Saved playlists'' [] None)"
proof -
  have s: "str_int 42 = ''42''"
    by (simp add: str_int_def str_nat.simps)
  have h1: "dict_get (playlists \<lparr>playlists = [(KStr ''42'', [(''road-trip'', [''https://example/a''])])],
                                playlists_file = None\<rparr>)
       (KStr (str_int 42)) = Some [(''road-trip'', [''https://example/a''])]"
    by (simp add: dict_get_def s)
  have h2: "dict_get [(''road-trip'', [''https://example/a''])] ''road-trip'' = Some [''https://example/a'']"
    by (simp add: dict_get_def)
  show ?thesis
    using remove_last_track_deletes_playlist [OF h1 h2] h1 h2
    by (simp add: Let_def s dict_setitem_def render_entries_def playlist_entries_def join_def)
qed

section \<open>Saving and loading\<close>

text \<open>
  C9: in every state the cog can reach, writing the dictionary with \<open>__save_playlists\<close>
  and reading the file back with \<open>__load_playlists\<close> gives the same dictionary: the same
  guild keys in the same order, each with the same playlists and track lists.
\<close>

theorem save_load_roundtrip:
  "reachable st \<Longrightarrow> load_playlists (playlists_file (save_playlists st)) = playlists st"
  using reachable_wf [of st] by (simp add: save_playlists_def load_playlists_def json_roundtrip)

theorem save_load_roundtrip_witness:
  "reachable (fst (create_playlist (init None) 42 ''road-trip''))
   \<and> playlists (fst (create_playlist (init None) 42 ''road-trip'')) = [(KStr ''42'', [(''road-trip'', [])])]
   \<and> load_playlists (playlists_file (save_playlists (fst (create_playlist (init None) 42 ''road-trip''))))
       = [(KStr ''42'', [(''road-trip'', [])])]"
proof -
  have r: "reachable (fst (create_playlist (init None) 42 ''road-trip''))"
    by (rule reachable_create) (rule reachable_init)
  have p: "playlists (fst (create_playlist (init None) 42 ''road-trip'')) = [(KStr ''42'', [(''road-trip'', [])])]"
    by (simp add: create_playlist_def init_def load_playlists_def Let_def dict_contains_def
        dict_get_def dict_setitem_def falsy_def str_int_def str_nat.simps)
  show ?thesis
    using save_load_roundtrip [OF r] r p by simp
qed

text \<open>The invariant is needed: \<open>json.dump\<close> writes an \<open>int\<close> key as a string.\<close>

lemma json_int_key_not_roundtrip: "json_load (json_dump [(KInt 1, [])]) \<noteq> [(KInt 1, [])]"
  by (simp add: json_load_def json_dump_def dict_of_members_def dict_setitem_def)

section \<open>The handlers on concrete states\<close>

lemmas handler_defs =
  remove_from_playlist_def create_playlist_def delete_playlist_def rename_playlist_def
  add_to_playlist_def list_playlist_def transform_def save_playlists_def init_def
  load_playlists_def json_load_def json_dump_def json_key_def dict_of_members_def
  dict_contains_def dict_get_def dict_setitem_def dict_delitem_def dict_pop_def falsy_def
  list_delitem_def list_getitem_def list_index_def str_int_def str_nat.simps Let_def

text \<open>
  The range check of \<open>remove_from_playlist\<close>, \<open>0 > track_id - 1 > len(...)\<close>, holds for no
  number, so the handler never answers that the track was not found.
\<close>

lemma remove_from_playlist_never_rejects_index:
  "snd (remove_from_playlist st gid name track_id) \<noteq> Inr (Message ''Track not found in playlist.'')"
proof -
  have g: "\<And>ts. (0 > track_id - 1 \<and> track_id - 1 > int (length ts)) = False"
    by auto
  show ?thesis
    unfolding remove_from_playlist_def Let_def g
    by (simp split: option.splits sum.splits)
qed

text \<open>
  C1: started on a file holding playlist \<open>p = [a, b]\<close> for guild 1 (the transformer accepts
  the name), \<open>remove_from_playlist\<close> with track number 0 does not reject the index: it
  deletes the last track, rewrites the file and reports success. With track number 2, inside
  the range, it deletes track \<open>b\<close> and then raises \<open>IndexError\<close>.
\<close>

theorem remove_from_playlist_index_zero:
  "playlists (init (Some [(''1'', [(''p'', [''a'', ''b''])])])) = [(KStr ''1'', [(''p'', [''a'', ''b''])])]
   \<and> transform (playlists (init (Some [(''1'', [(''p'', [''a'', ''b''])])]))) 1 ''p'' = Inr ''p''
   \<and> remove_from_playlist (init (Some [(''1'', [(''p'', [''a'', ''b''])])])) 1 ''p'' 0
      = (\<lparr>playlists = [(KStr ''1'', [(''p'', [''a''])])],
          playlists_file = Some [(''1'', [(''p'', [''a''])])]\<rparr>,
         Inr (Message ''Removed a from the playlist p.''))
   \<and> remove_from_playlist (init (Some [(''1'', [(''p'', [''a'', ''b''])])])) 1 ''p'' 2
      = (\<lparr>playlists = [(KStr ''1'', [(''p'', [''a''])])],
          playlists_file = Some [(''1'', [(''p'', [''a''])])]\<rparr>,
         Inl IndexError)"
  by (simp add: handler_defs)

text \<open>
  C2: on playlist \<open>p = [a, b]\<close>, whose track 1 is \<open>a\<close>, \<open>remove_from_playlist\<close> with
  track number 1 removes \<open>a\<close> and names \<open>b\<close> in its reply; on \<open>p = [a]\<close> it deletes the
  playlist and raises \<open>KeyError\<close> instead of replying.
\<close>

theorem remove_from_playlist_reports_next_track:
  "list_getitem [''a'', ''b''] (1 - 1) = Inr ''a''
   \<and> remove_from_playlist (init (Some [(''1'', [(''p'', [''a'', ''b''])])])) 1 ''p'' 1
      = (\<lparr>playlists = [(KStr ''1'', [(''p'', [''b''])])],
          playlists_file = Some [(''1'', [(''p'', [''b''])])]\<rparr>,
         Inr (Message ''Removed b from the playlist p.''))
   \<and> remove_from_playlist (init (Some [(''1'', [(''p'', [''a''])])])) 1 ''p'' 1
      = (\<lparr>playlists = [(KStr ''1'', [])], playlists_file = Some [(''1'', [])]\<rparr>, Inl KeyError)"
  by (simp add: handler_defs)

text \<open>
  C3: \<open>create_playlist\<close> of a name that guild 1 already has answers that the playlist was
  created, and the playlist is empty afterwards, whatever it held; \<open>create_playlist\<close> of a
  new name leaves the guild with the new playlist only.
\<close>

theorem create_playlist_existing_name:
  "create_playlist (init None) 1 ''x''
      = (\<lparr>playlists = [(KStr ''1'', [(''x'', [])])], playlists_file = Some [(''1'', [(''x'', [])])]\<rparr>,
         Inr (Message ''Created playlist x.''))
   \<and> create_playlist (fst (create_playlist (init None) 1 ''x'')) 1 ''x''
      = (\<lparr>playlists = [(KStr ''1'', [(''x'', [])])], playlists_file = Some [(''1'', [(''x'', [])])]\<rparr>,
         Inr (Message ''Created playlist x.''))
   \<and> create_playlist (init (Some [(''1'', [(''x'', [''u''])])])) 1 ''x''
      = (\<lparr>playlists = [(KStr ''1'', [(''x'', [])])], playlists_file = Some [(''1'', [(''x'', [])])]\<rparr>,
         Inr (Message ''Created playlist x.''))
   \<and> create_playlist (init (Some [(''1'', [(''x'', [''u''])])])) 1 ''y''
      = (\<lparr>playlists = [(KStr ''1'', [(''y'', [])])], playlists_file = Some [(''1'', [(''y'', [])])]\<rparr>,
         Inr (Message ''Created playlist y.''))"
  by (simp add: handler_defs)

text \<open>
  C4: after playlist \<open>x\<close> was created for guild 1 (the transformer accepts the name),
  \<open>delete_playlist\<close> answers that the playlist does not exist and removes nothing.
\<close>

theorem delete_playlist_existing_name:
  "transform (playlists (fst (create_playlist (init None) 1 ''x''))) 1 ''x'' = Inr ''x''
   \<and> delete_playlist (fst (create_playlist (init None) 1 ''x'')) 1 ''x''
      = (\<lparr>playlists = [(KStr ''1'', [(''x'', [])])], playlists_file = Some [(''1'', [(''x'', [])])]\<rparr>,
         Inr (Message ''Playlist does not exist.''))"
  by (simp add: handler_defs)

text \<open>
  C5: after playlist \<open>a\<close> was created for guild 1, which has no playlist \<open>b\<close>,
  \<open>rename_playlist\<close> from \<open>a\<close> to \<open>b\<close> answers that the playlist does not exist and
  renames nothing.
\<close>

theorem rename_playlist_existing_name:
  "transform (playlists (fst (create_playlist (init None) 1 ''a''))) 1 ''a'' = Inr ''a''
   \<and> rename_playlist (fst (create_playlist (init None) 1 ''a'')) 1 ''a'' ''b''
      = (\<lparr>playlists = [(KStr ''1'', [(''a'', [])])], playlists_file = Some [(''1'', [(''a'', [])])]\<rparr>,
         Inr (Message ''Playlist does not exist.''))"
  by (simp add: handler_defs)

text \<open>
  C6: after playlist \<open>p\<close> was created for guild 1, \<open>add_to_playlist\<close> raises \<open>KeyError\<close>
  and leaves the playlist and the file as they were, both with a resolver that rejects the
  URL and with one that resolves it.
\<close>

theorem add_to_playlist_int_key:
  "transform (playlists (fst (create_playlist (init None) 1 ''p''))) 1 ''p'' = Inr ''p''
   \<and> add_to_playlist (\<lambda>u. (None :: unit Track option))
        (fst (create_playlist (init None) 1 ''p'')) 1 ''p'' ''https://example/a''
      = (\<lparr>playlists = [(KStr ''1'', [(''p'', [])])], playlists_file = Some [(''1'', [(''p'', [])])]\<rparr>,
         Inl KeyError)
   \<and> add_to_playlist
        (\<lambda>u. Some \<lparr>title = ''A'', duration = 180, webpage_url = u, audio_url = (), thumbnail = None\<rparr>)
        (fst (create_playlist (init None) 1 ''p'')) 1 ''p'' ''https://example/a''
      = (\<lparr>playlists = [(KStr ''1'', [(''p'', [])])], playlists_file = Some [(''1'', [(''p'', [])])]\<rparr>,
         Inl KeyError)"
  by (simp add: handler_defs)

text \<open>
  C7: after playlist \<open>a\<close> was created for guild 1, \<open>list_playlist\<close> for guild 1 answers
  with the entry of \<open>a\<close>, and \<open>list_playlist\<close> for guild 2, which has no playlists, raises
  \<open>KeyError\<close>.
\<close>

theorem list_playlist_other_guild:
  "list_playlist (fst (create_playlist (init None) 1 ''a'')) 1
      = (\<lparr>playlists = [(KStr ''1'', [(''a'', [])])], playlists_file = Some [(''1'', [(''a'', [])])]\<rparr>,
         Inr (Embed ''Saved playlists'' ''1. a - 0 tracks'' None))
   \<and> list_playlist (fst (create_playlist (init None) 1 ''a'')) 2
      = (\<lparr>playlists = [(KStr ''1'', [(''a'', [])])], playlists_file = Some [(''1'', [(''a'', [])])]\<rparr>,
         Inl KeyError)"
  by (simp add: handler_defs render_entries_def playlist_entries_def join_def)

end
